theory Spec2Isabelle
  imports Main
begin

section \<open>The readable mixin of zstreams\<close>

text \<open>
  The mixin adds \<open>pipe\<close>, \<open>unpipe\<close>, \<open>tee\<close>, the downstream accessor and a family of
  convenience constructors to a readable stream. Streams and chain views are JavaScript
  objects that several variables may refer to, so they live in an explicit store and are
  named by references; every method takes the store and returns the updated one.
\<close>

subsection \<open>JavaScript values\<close>

text \<open>
  A string is the list of its UTF-16 code units, each a number below 65536;
  \<open>js_string\<close> gives the string of an ASCII literal.
\<close>

type_synonym jsstring = "nat list"

definition js_string :: "string \<Rightarrow> jsstring" where
  "js_string s = map of_char s"

text \<open>
  A Number passed as an argument is NaN, an infinity, or a safe integer: an integral
  value of magnitude below \<open>2^53\<close>, for which JavaScript prints the plain decimal
  digits of the value. Other Numbers are not arguments of this model.
\<close>

typedef safe_int = "{n :: int. \<bar>n\<bar> < 2 ^ 53}"
  by (rule exI [of _ 0]) simp

text \<open>
  A Number as \<open>parseInt\<close> returns it: NaN, an infinity, or a finite integral value
  (minus zero is not told apart from zero).
\<close>

datatype jsnum = JNaN | JPosInfinity | JNegInfinity | JInt int

text \<open>
  The values the constructors receive as arguments: the primitives, a
  regular-expression object \<open>JRegExp src\<close> with source text \<open>src\<close>, and Symbols.
\<close>

datatype jsval =
    JUndefined | JNull | JBool bool
  | JNumNaN | JNumInfinity | JNumNegInfinity | JNumInt safe_int
  | JStr jsstring | JRegExp jsstring | JSymbol nat

text \<open>ToBoolean: what \<open>!!x\<close>, \<open>x || y\<close> and \<open>if (x)\<close> test.\<close>

fun truthy :: "jsval \<Rightarrow> bool" where
  "truthy JUndefined = False"
| "truthy JNull = False"
| "truthy (JBool b) = b"
| "truthy JNumNaN = False"
| "truthy (JNumInt i) = (Rep_safe_int i \<noteq> 0)"
| "truthy JNumInfinity = True"
| "truthy JNumNegInfinity = True"
| "truthy (JStr s) = (s \<noteq> [])"
| "truthy (JRegExp src) = True"
| "truthy (JSymbol k) = True"

text \<open>
  What a call throws: \<open>TypeError\<close> is the error of the language itself (calling a
  value that is not a function, turning a Symbol into a string); \<open>Thrown x\<close> is any
  other thrown value.
\<close>

datatype 'x exn = TypeError | Thrown 'x

subsection \<open>The store\<close>

type_synonym nid = nat       \<comment> \<open>reference to a stream object\<close>
type_synonym cid = nat       \<comment> \<open>reference to a stream-chain object\<close>
type_synonym listener = nat  \<comment> \<open>identity of a listener function\<close>

text \<open>
  The fields of a stream object that the mixin reads or writes: \<open>_isZStream\<close>, the
  array \<open>listeners('error')\<close> returns, \<open>_zDownstreamStreams\<close>, \<open>_currentStreamChain\<close>
  (absent: \<open>None\<close>) and \<open>_readableState.objectMode\<close>.
\<close>

record znode =
  isZStream :: bool
  errorListeners :: "listener list"
  zDownstreamStreams :: "nid list"
  currentStreamChain :: "cid option"
  readableStateObjectMode :: jsval

text \<open>
  \<open>chainDirty c\<close> is the \<open>dirty\<close> field of chain object \<open>c\<close>; two streams that hold the
  same reference share the flag. \<open>nextId\<close> is the next unused stream reference.
\<close>

record zstore =
  nodes :: "nid \<Rightarrow> znode"
  chainDirty :: "cid \<Rightarrow> bool"
  nextId :: nid

text \<open>
  What the mixin calls and this file does not define. \<open>conversion.convertToZStream\<close>
  belongs to another file of the library and is a parameter: it takes the stream
  and the store and returns the reference of the converted stream with the store as
  it leaves it, so it may extend the stream in place (set \<open>_isZStream\<close>, register
  listeners, create a chain view) or put a new wrapper object into the store on each
  call. \<open>superPipeResult\<close> and \<open>superUnpipeResult\<close> are the values the methods of
  \<open>this._zSuperObj\<close> return.
\<close>

record primitives =
  convertToZStream :: "nid \<Rightarrow> zstore \<Rightarrow> nid \<times> zstore"
  superPipeResult :: "nid \<Rightarrow> nid \<Rightarrow> nid"
  superUnpipeResult :: "nid \<Rightarrow> nid option \<Rightarrow> nid"

record pipe_options =
  noConvert :: bool

text \<open>
  \<open>emitter.removeListener(type, f)\<close> of Node's EventEmitter searches the listener
  array from its end and removes one instance of \<open>f\<close>, the most recently added.
\<close>

definition removeListener :: "listener \<Rightarrow> listener list \<Rightarrow> listener list" where
  "removeListener f ls = rev (remove1 f (rev ls))"

definition update_node :: "nid \<Rightarrow> (znode \<Rightarrow> znode) \<Rightarrow> zstore \<Rightarrow> zstore" where
  "update_node n f s = s\<lparr>nodes := (nodes s)(n := f (nodes s n))\<rparr>"

text \<open>\<open>if (x._currentStreamChain) x._currentStreamChain.dirty = true\<close>\<close>

definition mark_dirty :: "nid \<Rightarrow> zstore \<Rightarrow> zstore" where
  "mark_dirty n s =
     (case currentStreamChain (nodes s n) of
        None \<Rightarrow> s
      | Some c \<Rightarrow> s\<lparr>chainDirty := (chainDirty s)(c := True)\<rparr>)"

subsection \<open>pipe, unpipe, tee and the accessors\<close>

text \<open>
  The first statement of \<open>pipe\<close>: a destination without \<open>_isZStream\<close> is converted,
  unless \<open>options.noConvert\<close> is set. The result is the destination \<open>pipe\<close> goes on
  with and the store as the conversion leaves it.
\<close>

definition pipe_convert ::
    "primitives \<Rightarrow> nid \<Rightarrow> pipe_options option \<Rightarrow> zstore \<Rightarrow> nid \<times> zstore" where
  "pipe_convert env destination options s =
     (if \<not> isZStream (nodes s destination) \<and>
         \<not> (case options of None \<Rightarrow> False | Some opts \<Rightarrow> noConvert opts)
      then convertToZStream env destination s
      else (destination, s))"

text \<open>
  The parent's \<open>pipe\<close>, \<open>this._zSuperObj.pipe\<close>, is the \<open>pipe\<close> of Node's readable
  streams. Of what it does the model keeps the part the mixin depends on: it
  creates a function \<open>onerror\<close> and registers it on the destination in front of the
  error listeners already there. \<open>new_listener ls\<close> is the identity of that new
  function: it differs from every function in \<open>ls\<close>. Listeners for other events, and
  what the parent's \<open>unpipe\<close> does to listeners, are not tracked: the mixin reads
  none of them.
\<close>

definition new_listener :: "listener list \<Rightarrow> listener" where
  "new_listener ls = Suc (foldr max ls 0)"

definition super_pipe :: "primitives \<Rightarrow> nid \<Rightarrow> nid \<Rightarrow> zstore \<Rightarrow> nid \<times> zstore" where
  "super_pipe env this destination s =
     (superPipeResult env this destination,
      update_node destination
        (\<lambda>d. d\<lparr>errorListeners := new_listener (errorListeners d) # errorListeners d\<rparr>) s)"

definition pipe ::
    "primitives \<Rightarrow> nid \<Rightarrow> nid \<Rightarrow> pipe_options option \<Rightarrow> zstore \<Rightarrow> nid \<times> zstore" where
  "pipe env this destination0 options s =
     (let (destination, s0) = pipe_convert env destination0 options s;
          (retVal, s1) = super_pipe env this destination s0;
          destinationErrorListeners = errorListeners (nodes s1 destination);
          s2 = (if length destinationErrorListeners \<ge> 1
                then update_node destination
                       (\<lambda>d. d\<lparr>errorListeners :=
                                removeListener (destinationErrorListeners ! 0) (errorListeners d)\<rparr>) s1
                else s1);
          s3 = update_node this
                 (\<lambda>t. t\<lparr>zDownstreamStreams := zDownstreamStreams t @ [destination]\<rparr>) s2;
          s4 = mark_dirty this s3;
          s5 = mark_dirty destination s4
      in (retVal, s5))"

definition unpipe ::
    "primitives \<Rightarrow> nid \<Rightarrow> nid option \<Rightarrow> zstore \<Rightarrow> nid \<times> zstore" where
  "unpipe env this destination s =
     (let retVal = superUnpipeResult env this destination;
          s1 = (case destination of
                  Some d \<Rightarrow>
                    update_node this
                      (\<lambda>t. t\<lparr>zDownstreamStreams :=
                               filter (\<lambda>dest. dest \<noteq> d) (zDownstreamStreams t)\<rparr>) s
                | None \<Rightarrow> update_node this (\<lambda>t. t\<lparr>zDownstreamStreams := []\<rparr>) s);
          s2 = mark_dirty this s1
      in (retVal, s2))"

definition tee ::
    "primitives \<Rightarrow> nid \<Rightarrow> nid \<Rightarrow> pipe_options option \<Rightarrow> zstore \<Rightarrow> nid \<times> zstore" where
  "tee env this destination options s =
     (let (r, s1) = pipe env this destination options s in (this, s1))"

definition getDownstreamStreams :: "nid \<Rightarrow> zstore \<Rightarrow> nid list" where
  "getDownstreamStreams this s = zDownstreamStreams (nodes s this)"

definition isReadableObjectMode :: "nid \<Rightarrow> zstore \<Rightarrow> bool" where
  "isReadableObjectMode this s = truthy (readableStateObjectMode (nodes s this))"


subsection \<open>Numeric coercion: parseInt and isNaN\<close>

text \<open>
  \<open>parseInt(x)\<close> with no radix. The argument is turned into a string first, which
  throws a TypeError for a Symbol. Then leading white space and one sign are
  skipped, a \<open>0x\<close>/\<open>0X\<close> prefix selects radix 16 (otherwise 10), and the longest
  prefix of digits of that radix is the value; no digit gives NaN. Whatever follows
  the digits is ignored. White space is what JavaScript's \<open>trim\<close> strips: tab, line
  feed, vertical tab, form feed, carriage return, space, no-break space (00A0), the
  space separators 1680, 2000 to 200A, 202F, 205F and 3000, the line and paragraph
  separators 2028 and 2029, and the byte order mark FEFF. (An engine built on a
  Unicode version before 6.3 also skips 180E; no statement below depends on it.)

  The result is a Number, a double: \<open>to_number\<close> rounds the integer read to the
  nearest double (53 significant bits, ties to even), and gives an infinity from
  \<open>2^1024 - 2^970\<close> on, the first integer that rounds past the largest double.
\<close>

function bit_length :: "nat \<Rightarrow> nat" where
  "bit_length n = (if n = 0 then 0 else Suc (bit_length (n div 2)))"
  by pat_completeness auto
termination
  by (relation "measure id") auto

declare bit_length.simps [simp del]

definition round_to_double :: "nat \<Rightarrow> nat" where
  "round_to_double m =
     (if m < 2 ^ 53 then m
      else let e = bit_length m - 53; q = m div 2 ^ e; r = m mod 2 ^ e
           in (if 2 ^ e < 2 * r \<or> (2 * r = 2 ^ e \<and> odd q) then q + 1 else q) * 2 ^ e)"

definition to_number :: "int \<Rightarrow> jsnum" where
  "to_number i =
     (let m = nat \<bar>i\<bar> in
      if 2 ^ 1024 - 2 ^ 970 \<le> m then (if i < 0 then JNegInfinity else JPosInfinity)
      else JInt (sgn i * int (round_to_double m)))"












subsection \<open>Caller-supplied functions, callbacks and exceptions\<close>

text \<open>
  A function the caller supplies runs later, when data flows, in a world of its own
  (the state \<open>'s\<close>). A call either completes normally or throws: \<open>None\<close> or \<open>Some ex\<close>
  for a function called for its effect, \<open>Inr v\<close> or \<open>Inl ex\<close> for one whose value is
  used. A callback is called as \<open>cb(ex)\<close> or as \<open>cb(null, v)\<close>.
\<close>

datatype ('v, 'x) cb_args = CbError "'x exn" | CbResult 'v

type_synonym ('v, 'x, 's) callback = "('v, 'x) cb_args \<Rightarrow> 's \<Rightarrow> 'x exn option \<times> 's"

datatype ('v, 'x, 's) jsarg = Data 'v | Callback "('v, 'x, 's) callback"

type_synonym ('v, 'x, 's) jsfun = "('v, 'x, 's) jsarg list \<Rightarrow> 's \<Rightarrow> 'x exn option \<times> 's"

type_synonym ('v, 'x, 's) syncfun = "('v, 'x, 's) jsarg list \<Rightarrow> 's \<Rightarrow> ('x exn + 'v) \<times> 's"

type_synonym ('v, 'x, 's) transform =
  "'v \<Rightarrow> jsval \<Rightarrow> ('v, 'x, 's) callback \<Rightarrow> 's \<Rightarrow> 'x exn option \<times> 's"

type_synonym ('v, 'x, 's) filterfun =
  "'v \<Rightarrow> ('v, 'x, 's) callback \<Rightarrow> 's \<Rightarrow> 'x exn option \<times> 's"

text \<open>\<open>args[i]\<close>, with \<open>None\<close> for the \<open>undefined\<close> an index past the end reads.\<close>

definition arg_at :: "'a list \<Rightarrow> nat \<Rightarrow> 'a option" where
  "arg_at args i = (if i < length args then Some (args ! i) else None)"

text \<open>Calling a value: a function runs, anything else throws a TypeError.\<close>

definition call_value ::
    "('v, 'x, 's) jsarg option \<Rightarrow> ('v, 'x) cb_args \<Rightarrow> 's \<Rightarrow> 'x exn option \<times> 's" where
  "call_value f a s = (case f of Some (Callback c) \<Rightarrow> c a s | _ \<Rightarrow> (Some TypeError, s))"

text \<open>
  The function \<open>through\<close> hands to ThroughStream:
  \<open>function(chunk, enc, cb) { transformFunc.call(this, chunk, cb); }\<close>
\<close>

definition through_function :: "('v, 'x, 's) jsfun \<Rightarrow> ('v, 'x, 's) transform" where
  "through_function transformFunc chunk enc cb s = transformFunc [Data chunk, Callback cb] s"

text \<open>
  The function \<open>throughSync\<close> hands to \<open>through\<close>. \<open>cb\<close> is \<open>args[1]\<close> when that is a
  function and \<open>args[2]\<close> otherwise; \<open>transformFunc\<close> gets all arguments but the last.
  Its call is the argument of \<open>cb(null, ...)\<close> inside the \<open>try\<close> block, so it runs
  before \<open>cb\<close> is called, and an exception of that first \<open>cb\<close> call is caught as well.
\<close>

definition throughSync_function :: "('v, 'x, 's) syncfun \<Rightarrow> ('v, 'x, 's) jsfun" where
  "throughSync_function transformFunc args s =
     (let cb = (case arg_at args 1 of
                  Some (Callback c) \<Rightarrow> Some (Callback c)
                | _ \<Rightarrow> arg_at args 2)
      in case transformFunc (butlast args) s of
           (Inl ex, s1) \<Rightarrow> call_value cb (CbError ex) s1
         | (Inr v, s1) \<Rightarrow>
             (case call_value cb (CbResult v) s1 of
                (None, s2) \<Rightarrow> (None, s2)
              | (Some ex, s2) \<Rightarrow> call_value cb (CbError ex) s2))"

text \<open>The function \<open>filterSync\<close> hands to \<open>filter\<close>: \<open>function(chunk, cb)\<close>.\<close>

definition filterSync_function ::
    "('v \<Rightarrow> 's \<Rightarrow> ('x exn + 'v) \<times> 's) \<Rightarrow> ('v, 'x, 's) filterfun" where
  "filterSync_function filterFunc chunk cb s =
     (case filterFunc chunk s of
        (Inl ex, s1) \<Rightarrow> cb (CbError ex) s1
      | (Inr v, s1) \<Rightarrow>
          (case cb (CbResult v) s1 of
             (None, s2) \<Rightarrow> (None, s2)
           | (Some ex, s2) \<Rightarrow> cb (CbError ex) s2))"

subsection \<open>The convenience constructors\<close>

text \<open>
  The stage classes are required from other files; a value of \<open>stage\<close> is one
  \<open>new\<close> expression of the mixin with its arguments:
  \<open>ThroughStream f w r\<close> is \<open>new ThroughStream(f, {writableObjectMode: w, readableObjectMode: r})\<close>,
  \<open>FilterStream f m\<close> is \<open>new FilterStream(f, {objectMode: m})\<close>,
  \<open>IntersperseStream sep m\<close> is \<open>new IntersperseStream(sep, {objectMode: m})\<close>,
  \<open>FunctionWritableStream f m\<close> is \<open>new FunctionWritableStream(f, {objectMode: m})\<close>,
  and \<open>SplitStream\<close>, \<open>BatchStream\<close>, \<open>PluckStream\<close> take their one argument and no
  options. The sink helpers \<open>intoArray\<close>, \<open>intoString\<close> and \<open>intoFile\<close>, which go on
  to call \<open>intoCallback\<close> on what \<open>pipe\<close> returns, are left out.
\<close>

datatype ('v, 'x, 's) stage =
    ThroughStream "('v, 'x, 's) transform" jsval jsval
  | FilterStream "('v, 'x, 's) filterfun" jsval
  | SplitStream jsval
  | BatchStream jsnum
  | PluckStream jsval
  | IntersperseStream jsval jsval
  | FunctionWritableStream "('v, 'x, 's) jsfun" jsval

text \<open>
  \<open>new C(...)\<close> puts the object the class builds, \<open>construct c\<close>, at an unused
  reference.
\<close>

definition new_stream ::
    "(('v, 'x, 's) stage \<Rightarrow> znode) \<Rightarrow> ('v, 'x, 's) stage \<Rightarrow> zstore \<Rightarrow> nid \<times> zstore" where
  "new_stream construct c s =
     (nextId s, s\<lparr>nodes := (nodes s)(nextId s := construct c), nextId := Suc (nextId s)\<rparr>)"

text \<open>
  \<open>this.pipe(new C(...))\<close>: every constructor below ends in this call. Each is
  written as the \<open>new\<close> expression it evaluates (\<open>through_stage\<close>, \<open>filter_stage\<close>,
  ...) and the call that pipes \<open>this\<close> into the new object.
\<close>

definition pipe_new ::
    "(('v, 'x, 's) stage \<Rightarrow> znode) \<Rightarrow> primitives \<Rightarrow> nid \<Rightarrow> ('v, 'x, 's) stage \<Rightarrow> zstore
       \<Rightarrow> nid \<times> zstore" where
  "pipe_new construct env this c s =
     (let (st, s1) = new_stream construct c s in pipe env this st None s1)"

definition through_stage ::
    "nid \<Rightarrow> ('v, 'x, 's) jsfun \<Rightarrow> jsval \<Rightarrow> zstore \<Rightarrow> ('v, 'x, 's) stage" where
  "through_stage this transformFunc objectMode s =
     ThroughStream (through_function transformFunc)
       (JBool (isReadableObjectMode this s))
       (if objectMode \<noteq> JUndefined then objectMode else JBool (isReadableObjectMode this s))"

definition through ::
    "(('v, 'x, 's) stage \<Rightarrow> znode) \<Rightarrow> primitives \<Rightarrow> nid \<Rightarrow> ('v, 'x, 's) jsfun \<Rightarrow> jsval
       \<Rightarrow> zstore \<Rightarrow> nid \<times> zstore" where
  "through construct env this transformFunc objectMode s =
     pipe_new construct env this (through_stage this transformFunc objectMode s) s"



definition throughSync ::
    "(('v, 'x, 's) stage \<Rightarrow> znode) \<Rightarrow> primitives \<Rightarrow> nid \<Rightarrow> ('v, 'x, 's) syncfun \<Rightarrow> jsval
       \<Rightarrow> zstore \<Rightarrow> nid \<times> zstore" where
  "throughSync construct env this transformFunc objectMode s =
     through construct env this (throughSync_function transformFunc) objectMode s"

definition throughObjSync ::
    "(('v, 'x, 's) stage \<Rightarrow> znode) \<Rightarrow> primitives \<Rightarrow> nid \<Rightarrow> ('v, 'x, 's) syncfun
       \<Rightarrow> zstore \<Rightarrow> nid \<times> zstore" where
  "throughObjSync construct env this transformFunc s =
     throughSync construct env this transformFunc (JBool True) s"

definition throughDataSync ::
    "(('v, 'x, 's) stage \<Rightarrow> znode) \<Rightarrow> primitives \<Rightarrow> nid \<Rightarrow> ('v, 'x, 's) syncfun
       \<Rightarrow> zstore \<Rightarrow> nid \<times> zstore" where
  "throughDataSync construct env this transformFunc s =
     throughSync construct env this transformFunc (JBool False) s"

definition filter_stage :: "('v, 'x, 's) filterfun \<Rightarrow> ('v, 'x, 's) stage" where
  "filter_stage filterFunc = FilterStream filterFunc (JBool True)"

definition filter_mixin ::
    "(('v, 'x, 's) stage \<Rightarrow> znode) \<Rightarrow> primitives \<Rightarrow> nid \<Rightarrow> ('v, 'x, 's) filterfun
       \<Rightarrow> zstore \<Rightarrow> nid \<times> zstore" where
  "filter_mixin construct env this filterFunc s =
     pipe_new construct env this (filter_stage filterFunc) s"

definition filterSync ::
    "(('v, 'x, 's) stage \<Rightarrow> znode) \<Rightarrow> primitives \<Rightarrow> nid \<Rightarrow> ('v \<Rightarrow> 's \<Rightarrow> ('x exn + 'v) \<times> 's)
       \<Rightarrow> zstore \<Rightarrow> nid \<times> zstore" where
  "filterSync construct env this filterFunc s =
     filter_mixin construct env this (filterSync_function filterFunc) s"







definition pluck_stage :: "jsval \<Rightarrow> ('v, 'x, 's) stage" where
  "pluck_stage property0 =
     (let property = (if truthy property0 then property0 else JStr (js_string ''value''))
      in PluckStream property)"

definition pluck ::
    "(('v, 'x, 's) stage \<Rightarrow> znode) \<Rightarrow> primitives \<Rightarrow> nid \<Rightarrow> jsval \<Rightarrow> zstore \<Rightarrow> nid \<times> zstore" where
  "pluck construct env this property s =
     pipe_new construct env this (pluck_stage property) s"

definition intersperse_stage :: "nid \<Rightarrow> jsval \<Rightarrow> zstore \<Rightarrow> ('v, 'x, 's) stage" where
  "intersperse_stage this seperator0 s =
     (let seperator = (if seperator0 = JNull \<or> seperator0 = JUndefined
                       then JStr [0x0A] else seperator0)
      in IntersperseStream seperator (JBool (isReadableObjectMode this s)))"

definition intersperse ::
    "(('v, 'x, 's) stage \<Rightarrow> znode) \<Rightarrow> primitives \<Rightarrow> nid \<Rightarrow> jsval \<Rightarrow> zstore \<Rightarrow> nid \<times> zstore" where
  "intersperse construct env this seperator s =
     pipe_new construct env this (intersperse_stage this seperator s) s"





subsection \<open>Concrete primitives, stores and functions\<close>

text \<open>
  Three conversions. \<open>identity_primitive\<close> returns the stream as it is.
  \<open>in_place_primitive\<close> extends the stream in place: it sets \<open>_isZStream\<close>, runs the
  mixin's constructor, which sets \<open>_zDownstreamStreams\<close> to the empty array, and
  registers an error listener of its own. \<open>wrapping_primitive\<close> puts a new wrapper
  object into the store on every call. With all three the parent's \<open>pipe\<close> returns
  the destination and its \<open>unpipe\<close> returns the source.
\<close>

definition plain_node :: znode where
  "plain_node =
     \<lparr>isZStream = True, errorListeners = [], zDownstreamStreams = [],
      currentStreamChain = None, readableStateObjectMode = JBool False\<rparr>"

definition identity_primitive :: primitives where
  "identity_primitive =
     \<lparr>convertToZStream = (\<lambda>n s. (n, s)),
      superPipeResult = (\<lambda>this dest. dest),
      superUnpipeResult = (\<lambda>this dest. this)\<rparr>"

definition in_place_primitive :: primitives where
  "in_place_primitive =
     \<lparr>convertToZStream =
        (\<lambda>n s. (n, update_node n
                     (\<lambda>d. d\<lparr>isZStream := True, zDownstreamStreams := [],
                             errorListeners := errorListeners d @ [new_listener (errorListeners d)]\<rparr>)
                     s)),
      superPipeResult = (\<lambda>this dest. dest),
      superUnpipeResult = (\<lambda>this dest. this)\<rparr>"

definition wrapping_primitive :: primitives where
  "wrapping_primitive =
     \<lparr>convertToZStream =
        (\<lambda>n s. (nextId s,
                 s\<lparr>nodes := (nodes s)(nextId s := plain_node), nextId := Suc (nextId s)\<rparr>)),
      superPipeResult = (\<lambda>this dest. dest),
      superUnpipeResult = (\<lambda>this dest. this)\<rparr>"

text \<open>
  Stream 0 is a producer in data mode with chain view 0; stream 1 is a zstream with one
  error listener of its own (7) and chain view 1; stream 2 is a foreign stream with
  one error listener (5); no chain view is dirty and no stream is piped.
  \<open>once_piped_store\<close> and \<open>twice_piped_store\<close> are the stores after piping stream 0
  into stream 1 once and twice. In \<open>shared_chain_store\<close> stream 0 is piped into stream
  1 and both hold the chain view 0, not dirty, as after a chain computation.
\<close>

definition example_store :: zstore where
  "example_store =
     \<lparr>nodes = (\<lambda>n. if n = 0 then plain_node\<lparr>currentStreamChain := Some 0\<rparr>
                   else if n = 1 then plain_node\<lparr>errorListeners := [7], currentStreamChain := Some 1\<rparr>
                   else if n = 2 then plain_node\<lparr>isZStream := False, errorListeners := [5]\<rparr>
                   else plain_node),
      chainDirty = (\<lambda>c. False),
      nextId = 4\<rparr>"

definition once_piped_store :: zstore where
  "once_piped_store = snd (pipe identity_primitive 0 1 None example_store)"

definition twice_piped_store :: zstore where
  "twice_piped_store = snd (pipe identity_primitive 0 1 None once_piped_store)"

definition shared_chain_store :: zstore where
  "shared_chain_store =
     \<lparr>nodes = (\<lambda>n. if n = 0 then plain_node\<lparr>zDownstreamStreams := [1], currentStreamChain := Some 0\<rparr>
                   else if n = 1 then plain_node\<lparr>currentStreamChain := Some 0\<rparr>
                   else plain_node),
      chainDirty = (\<lambda>c. False),
      nextId = 2\<rparr>"


definition example_construct :: "(int, string, (int, string) cb_args list) stage \<Rightarrow> znode" where
  "example_construct c = plain_node"

text \<open>
  A callback that records its calls and never throws, and one that records its calls
  and throws the error it is called with.
\<close>

definition recording_callback :: "(int, string, (int, string) cb_args list) callback" where
  "recording_callback a log = (None, log @ [a])"

definition rethrowing_callback :: "(int, string, (int, string) cb_args list) callback" where
  "rethrowing_callback a log =
     (case a of CbError ex \<Rightarrow> (Some ex, log @ [a]) | CbResult v \<Rightarrow> (None, log @ [a]))"

text \<open>\<open>function(x) { if (x === 2) throw 'boom'; return x * 2; }\<close>\<close>

definition doubling_function :: "(int, string, (int, string) cb_args list) syncfun" where
  "doubling_function args log =
     (case args of
        Data x # rest \<Rightarrow> if x = 2 then (Inl (Thrown ''boom''), log) else (Inr (x * 2), log)
      | _ \<Rightarrow> (Inl TypeError, log))"

text \<open>\<open>function(x) { if (x === 2) throw 'boom'; return x > 1; }\<close>, with 1 for true.\<close>

definition threshold_function ::
    "int \<Rightarrow> (int, string) cb_args list \<Rightarrow> (string exn + int) \<times> (int, string) cb_args list" where
  "threshold_function x log =
     (if x = 2 then (Inl (Thrown ''boom''), log) else (Inr (if x > 1 then 1 else 0), log))"



section \<open>Properties\<close>

subsection \<open>The store operations\<close>

lemma nodes_update_node:
  "nodes (update_node n f s) m = (if m = n then f (nodes s n) else nodes s m)"
  by (simp add: update_node_def)

lemma chainDirty_update_node: "chainDirty (update_node n f s) = chainDirty s"
  by (simp add: update_node_def)

lemma nextId_update_node: "nextId (update_node n f s) = nextId s"
  by (simp add: update_node_def)

lemma nodes_mark_dirty: "nodes (mark_dirty n s) = nodes s"
  by (simp add: mark_dirty_def split: option.splits)

lemma nextId_mark_dirty: "nextId (mark_dirty n s) = nextId s"
  by (simp add: mark_dirty_def split: option.splits)

lemma chainDirty_mark_dirty:
  "chainDirty (mark_dirty n s) c = (chainDirty s c \<or> currentStreamChain (nodes s n) = Some c)"
  by (auto simp add: mark_dirty_def split: option.splits)

lemmas store_simps = nodes_update_node chainDirty_update_node nextId_update_node
  nodes_mark_dirty nextId_mark_dirty chainDirty_mark_dirty

subsection \<open>Listeners\<close>

lemma foldr_max_upper: "x \<in> set ls \<Longrightarrow> x \<le> foldr max ls (0::nat)"
  by (induction ls) auto

lemma new_listener_fresh: "new_listener ls \<notin> set ls"
proof
  assume "new_listener ls \<in> set ls"
  then have "new_listener ls \<le> foldr max ls 0"
    by (rule foldr_max_upper)
  then show False
    by (simp add: new_listener_def)
qed

lemma removeListener_fresh_head: "f \<notin> set ls \<Longrightarrow> removeListener f (f # ls) = ls"
  by (simp add: removeListener_def remove1_append)

lemma removeListener_new_listener: "removeListener (new_listener ls) (new_listener ls # ls) = ls"
  by (rule removeListener_fresh_head) (rule new_listener_fresh)

subsection \<open>What pipe and unpipe change\<close>

lemma pipe_convert_zstream:
  "isZStream (nodes s C) \<Longrightarrow> pipe_convert env C opts s = (C, s)"
  by (simp add: pipe_convert_def)

lemma pipe_convert_noConvert:
  "opts = Some opt \<Longrightarrow> noConvert opt \<Longrightarrow> pipe_convert env C opts s = (C, s)"
  by (simp add: pipe_convert_def)

lemma pipe_convert_foreign:
  "\<not> isZStream (nodes s C) \<Longrightarrow> \<not> (\<exists>opt. opts = Some opt \<and> noConvert opt) \<Longrightarrow>
     pipe_convert env C opts s = convertToZStream env C s"
  by (auto simp add: pipe_convert_def split: option.splits)


lemma pipe_fanout:
  "getDownstreamStreams this (snd (pipe env this C opts s)) =
     getDownstreamStreams this (snd (pipe_convert env C opts s)) @ [fst (pipe_convert env C opts s)]"
  by (simp add: pipe_def super_pipe_def getDownstreamStreams_def Let_def case_prod_beta store_simps)

lemma pipe_result:
  "fst (pipe env this C opts s) = superPipeResult env this (fst (pipe_convert env C opts s))"
  by (simp add: pipe_def super_pipe_def Let_def case_prod_beta)

lemma pipe_chain:
  "currentStreamChain (nodes (snd (pipe env this C opts s)) n) =
     currentStreamChain (nodes (snd (pipe_convert env C opts s)) n)"
  by (simp add: pipe_def super_pipe_def Let_def case_prod_beta store_simps)

lemma pipe_isZStream:
  "isZStream (nodes (snd (pipe env this C opts s)) n) =
     isZStream (nodes (snd (pipe_convert env C opts s)) n)"
  by (simp add: pipe_def super_pipe_def Let_def case_prod_beta store_simps)

lemma pipe_fanout_other:
  "n \<noteq> this \<Longrightarrow> getDownstreamStreams n (snd (pipe env this C opts s)) =
     getDownstreamStreams n (snd (pipe_convert env C opts s))"
  by (simp add: pipe_def super_pipe_def getDownstreamStreams_def Let_def case_prod_beta store_simps)

lemma pipe_dirty:
  "chainDirty (snd (pipe env this C opts s)) c =
     (chainDirty (snd (pipe_convert env C opts s)) c
      \<or> currentStreamChain (nodes (snd (pipe_convert env C opts s)) this) = Some c
      \<or> currentStreamChain (nodes (snd (pipe_convert env C opts s))
            (fst (pipe_convert env C opts s))) = Some c)"
  by (auto simp add: pipe_def super_pipe_def Let_def case_prod_beta store_simps)

lemma pipe_listeners:
  "errorListeners (nodes (snd (pipe env this C opts s)) n) =
     errorListeners (nodes (snd (pipe_convert env C opts s)) n)"
  by (simp add: pipe_def super_pipe_def Let_def case_prod_beta store_simps
        removeListener_new_listener)

lemma unpipe_fanout:
  "getDownstreamStreams this (snd (unpipe env this dest s)) =
     (case dest of Some d \<Rightarrow> filter (\<lambda>x. x \<noteq> d) (getDownstreamStreams this s) | None \<Rightarrow> [])"
  by (simp add: unpipe_def getDownstreamStreams_def Let_def store_simps split: option.splits)



lemma length_filter_neq: "length (filter (\<lambda>x. x \<noteq> c) xs) + count_list xs c = length xs"
  by (induction xs) auto

subsection \<open>The concrete stores and primitives\<close>

lemma plain_node_simps:
  "isZStream plain_node = True"
  "errorListeners plain_node = []"
  "zDownstreamStreams plain_node = []"
  "currentStreamChain plain_node = None"
  "readableStateObjectMode plain_node = JBool False"
  by (simp_all add: plain_node_def)

lemma example_store_simps:
  "nodes example_store 0 = plain_node\<lparr>currentStreamChain := Some 0\<rparr>"
  "nodes example_store 1 = plain_node\<lparr>errorListeners := [7], currentStreamChain := Some 1\<rparr>"
  "nodes example_store (Suc 0) = plain_node\<lparr>errorListeners := [7], currentStreamChain := Some 1\<rparr>"
  "nodes example_store 2 = plain_node\<lparr>isZStream := False, errorListeners := [5]\<rparr>"
  "nodes example_store 4 = plain_node"
  "chainDirty example_store c = False"
  "nextId example_store = 4"
  by (simp_all add: example_store_def)

lemma shared_chain_store_simps:
  "nodes shared_chain_store 0 = plain_node\<lparr>zDownstreamStreams := [1], currentStreamChain := Some 0\<rparr>"
  "nodes shared_chain_store 1 = plain_node\<lparr>currentStreamChain := Some 0\<rparr>"
  "nodes shared_chain_store (Suc 0) = plain_node\<lparr>currentStreamChain := Some 0\<rparr>"
  "chainDirty shared_chain_store c = False"
  by (simp_all add: shared_chain_store_def)

lemma primitive_simps:
  "convertToZStream identity_primitive n s = (n, s)"
  "superPipeResult identity_primitive this dest = dest"
  "superUnpipeResult identity_primitive this d = this"
  "convertToZStream in_place_primitive n s =
     (n, update_node n
           (\<lambda>d. d\<lparr>isZStream := True, zDownstreamStreams := [],
                   errorListeners := errorListeners d @ [new_listener (errorListeners d)]\<rparr>) s)"
  "convertToZStream wrapping_primitive n s =
     (nextId s, s\<lparr>nodes := (nodes s)(nextId s := plain_node), nextId := Suc (nextId s)\<rparr>)"
  by (simp_all add: identity_primitive_def in_place_primitive_def wrapping_primitive_def)

lemma example_convert:
  "pipe_convert env 1 opts example_store = (1, example_store)"
  "pipe_convert env (Suc 0) opts example_store = (Suc 0, example_store)"
  by (simp_all add: pipe_convert_def example_store_simps plain_node_simps)

lemma example_fanout:
  "getDownstreamStreams 0 example_store = []"
  "getDownstreamStreams 0 shared_chain_store = [1]"
  by (simp_all add: getDownstreamStreams_def example_store_simps shared_chain_store_simps
        plain_node_simps)

lemma once_piped_store_simps:
  "getDownstreamStreams 0 once_piped_store = [1]"
  "isZStream (nodes once_piped_store 1)"
  "currentStreamChain (nodes once_piped_store 0) = Some 0"
  "currentStreamChain (nodes once_piped_store 1) = Some 1"
  "chainDirty once_piped_store 0"
  "chainDirty once_piped_store 1"
  by (simp_all add: once_piped_store_def pipe_fanout pipe_isZStream pipe_chain pipe_dirty
        example_convert example_fanout example_store_simps plain_node_simps)

lemma once_piped_convert:
  "pipe_convert env 1 opts once_piped_store = (1, once_piped_store)"
  "pipe_convert env (Suc 0) opts once_piped_store = (Suc 0, once_piped_store)"
  using once_piped_store_simps(2) by (simp_all add: pipe_convert_def)

lemma twice_piped_store_fanout: "getDownstreamStreams 0 twice_piped_store = [1, 1]"
  by (simp add: twice_piped_store_def pipe_fanout once_piped_convert once_piped_store_simps)

lemmas example_simps = example_store_simps shared_chain_store_simps plain_node_simps
  primitive_simps example_convert example_fanout once_piped_store_simps once_piped_convert
  twice_piped_store_fanout

subsection \<open>Error-listener removal in pipe\<close>



subsection \<open>The fanout list\<close>

text \<open>
  Claim C2, as the code has it. \<open>unpipe\<close> with a consumer \<open>C\<close> keeps exactly the entries
  of the producer's fanout list that are not \<open>C\<close>, in their order: every entry
  identical to \<open>C\<close> is removed, which is exactly one entry when \<open>C\<close> occurs once.
  \<open>unpipe\<close> with no consumer empties the list whatever it held.
\<close>

theorem unpipe_removes_every_matching_entry:
  "getDownstreamStreams this (snd (unpipe env this (Some C) s)) =
      filter (\<lambda>d. d \<noteq> C) (getDownstreamStreams this s)
   \<and> count_list (getDownstreamStreams this (snd (unpipe env this (Some C) s))) C = 0
   \<and> length (getDownstreamStreams this (snd (unpipe env this (Some C) s)))
        + count_list (getDownstreamStreams this s) C = length (getDownstreamStreams this s)
   \<and> getDownstreamStreams this (snd (unpipe env this None s)) = []"
  by (simp add: unpipe_fanout length_filter_neq count_list_0_iff)

theorem unpipe_removes_every_matching_entry_witness:
  "getDownstreamStreams 0 once_piped_store = [1]
   \<and> getDownstreamStreams 0 (snd (unpipe identity_primitive 0 (Some 1) once_piped_store)) = []
   \<and> getDownstreamStreams 0 (snd (unpipe identity_primitive 0 (Some 2) once_piped_store)) = [1]
   \<and> getDownstreamStreams 0 (snd (unpipe identity_primitive 0 None once_piped_store)) = []"
  using unpipe_removes_every_matching_entry [of 0 identity_primitive 1 once_piped_store]
    unpipe_removes_every_matching_entry [of 0 identity_primitive 2 once_piped_store]
  by (simp add: example_simps)

text \<open>
  Stream 0 piped into stream 1 twice has the fanout list \<open>[1, 1]\<close>; one \<open>unpipe\<close> of
  stream 1 removes both entries.
\<close>

theorem unpipe_duplicate_counterexample:
  "getDownstreamStreams 0 twice_piped_store = [1, 1]
   \<and> getDownstreamStreams 0 (snd (unpipe identity_primitive 0 (Some 1) twice_piped_store)) = []"
  by (simp add: unpipe_fanout example_simps)

text \<open>
  Claim C3, as the code has it. After \<open>pipe\<close> the destination \<open>d\<close> that was wired is
  the last entry of the producer's fanout list, behind the list as the conversion
  step left it, so \<open>d\<close> occurs once more than in that list; the accessor returns the
  updated list at once. When the consumer is a zstream or \<open>noConvert\<close> is set, no
  conversion runs: \<open>d\<close> is the consumer, the list is the list before the call with
  the consumer appended, and piping the consumer twice appends it twice. Otherwise
  \<open>d\<close> is the object the conversion returns, and the list is the list before the
  call with \<open>d\<close> appended whenever the conversion leaves the producer's list alone.
\<close>

theorem pipe_appends_wired_destination:
  "(let d = fst (pipe_convert env C opts s);
        s0 = snd (pipe_convert env C opts s);
        s' = snd (pipe env this C opts s)
    in getDownstreamStreams this s' = getDownstreamStreams this s0 @ [d]
       \<and> count_list (getDownstreamStreams this s') d = count_list (getDownstreamStreams this s0) d + 1
       \<and> (getDownstreamStreams this s0 = getDownstreamStreams this s \<longrightarrow>
            getDownstreamStreams this s' = getDownstreamStreams this s @ [d]))
   \<and> (isZStream (nodes s C) \<or> (\<exists>opt. opts = Some opt \<and> noConvert opt) \<longrightarrow>
        pipe_convert env C opts s = (C, s)
        \<and> getDownstreamStreams this (snd (pipe env this C opts s)) = getDownstreamStreams this s @ [C]
        \<and> count_list (getDownstreamStreams this (snd (pipe env this C opts s))) C =
            count_list (getDownstreamStreams this s) C + 1
        \<and> getDownstreamStreams this (snd (pipe env this C opts (snd (pipe env this C opts s)))) =
            getDownstreamStreams this s @ [C, C])
   \<and> (\<not> isZStream (nodes s C) \<and> \<not> (\<exists>opt. opts = Some opt \<and> noConvert opt) \<longrightarrow>
        pipe_convert env C opts s = convertToZStream env C s)"
proof -
  have 1: "(let d = fst (pipe_convert env C opts s);
        s0 = snd (pipe_convert env C opts s);
        s' = snd (pipe env this C opts s)
    in getDownstreamStreams this s' = getDownstreamStreams this s0 @ [d]
       \<and> count_list (getDownstreamStreams this s') d = count_list (getDownstreamStreams this s0) d + 1
       \<and> (getDownstreamStreams this s0 = getDownstreamStreams this s \<longrightarrow>
            getDownstreamStreams this s' = getDownstreamStreams this s @ [d]))"
    by (simp add: Let_def pipe_fanout)
  have 2: "isZStream (nodes s C) \<or> (\<exists>opt. opts = Some opt \<and> noConvert opt) \<longrightarrow>
        pipe_convert env C opts s = (C, s)
        \<and> getDownstreamStreams this (snd (pipe env this C opts s)) = getDownstreamStreams this s @ [C]
        \<and> count_list (getDownstreamStreams this (snd (pipe env this C opts s))) C =
            count_list (getDownstreamStreams this s) C + 1
        \<and> getDownstreamStreams this (snd (pipe env this C opts (snd (pipe env this C opts s)))) =
            getDownstreamStreams this s @ [C, C]"
  proof
    assume h: "isZStream (nodes s C) \<or> (\<exists>opt. opts = Some opt \<and> noConvert opt)"
    then have c: "pipe_convert env C opts s = (C, s)"
      by (auto simp add: pipe_convert_zstream pipe_convert_noConvert)
    have "isZStream (nodes (snd (pipe env this C opts s)) C) \<or> (\<exists>opt. opts = Some opt \<and> noConvert opt)"
      using h by (simp add: pipe_isZStream c)
    then have c': "pipe_convert env C opts (snd (pipe env this C opts s)) =
        (C, snd (pipe env this C opts s))"
      by (auto simp add: pipe_convert_zstream pipe_convert_noConvert)
    show "pipe_convert env C opts s = (C, s)
        \<and> getDownstreamStreams this (snd (pipe env this C opts s)) = getDownstreamStreams this s @ [C]
        \<and> count_list (getDownstreamStreams this (snd (pipe env this C opts s))) C =
            count_list (getDownstreamStreams this s) C + 1
        \<and> getDownstreamStreams this (snd (pipe env this C opts (snd (pipe env this C opts s)))) =
            getDownstreamStreams this s @ [C, C]"
      by (simp add: pipe_fanout c c')
  qed
  have 3: "\<not> isZStream (nodes s C) \<and> \<not> (\<exists>opt. opts = Some opt \<and> noConvert opt) \<longrightarrow>
        pipe_convert env C opts s = convertToZStream env C s"
    by (simp add: pipe_convert_foreign)
  from 1 2 3 show ?thesis by blast
qed

theorem pipe_appends_wired_destination_witness:
  "isZStream (nodes example_store 1)
   \<and> getDownstreamStreams 0 example_store = []
   \<and> getDownstreamStreams 0 (snd (pipe identity_primitive 0 1 None example_store)) = [1]
   \<and> getDownstreamStreams 0
        (snd (pipe identity_primitive 0 1 None (snd (pipe identity_primitive 0 1 None example_store))))
       = [1, 1]"
  using pipe_appends_wired_destination [where env = identity_primitive and C = 1 and opts = None
      and s = example_store and this = 0]
  by (simp add: example_simps)

text \<open>
  Stream 2 is a foreign stream and the conversion wraps it in a new object, stream 4:
  after piping stream 0 into stream 2 the fanout list holds the wrapper, and stream 2
  occurs in it as often as before, not at all.
\<close>

theorem pipe_converted_destination_counterexample:
  "getDownstreamStreams 0 example_store = []
   \<and> \<not> isZStream (nodes example_store 2)
   \<and> getDownstreamStreams 0 (snd (pipe wrapping_primitive 0 2 None example_store)) = [4]
   \<and> count_list (getDownstreamStreams 0 (snd (pipe wrapping_primitive 0 2 None example_store))) 2 = 0"
proof -
  have c: "pipe_convert wrapping_primitive 2 None example_store =
      (4, example_store\<lparr>nodes := (nodes example_store)(4 := plain_node), nextId := 5\<rparr>)"
    by (simp add: pipe_convert_def example_simps)
  have "getDownstreamStreams 0 (snd (pipe wrapping_primitive 0 2 None example_store)) = [4]"
    by (simp add: pipe_fanout c) (simp add: getDownstreamStreams_def example_simps)
  then show ?thesis
    by (simp add: example_simps)
qed

subsection \<open>Dirty marking\<close>



subsection \<open>tee\<close>

text \<open>
  Claim C6. \<open>tee\<close> leaves the store exactly as \<open>pipe\<close> with the same producer,
  consumer and options leaves it (fanout list, error listeners, dirty flags), and it
  returns the producer, whatever \<open>pipe\<close> returns.
\<close>

theorem tee_is_pipe_returning_producer:
  "tee env this C opts s = (this, snd (pipe env this C opts s))"
  by (simp add: tee_def split: prod.splits)

theorem tee_is_pipe_returning_producer_witness:
  "tee identity_primitive 0 1 None example_store =
      (0, snd (pipe identity_primitive 0 1 None example_store))
   \<and> fst (pipe identity_primitive 0 1 None example_store) = 1
   \<and> getDownstreamStreams 0 (snd (tee identity_primitive 0 1 None example_store)) = [1]
   \<and> errorListeners (nodes (snd (tee identity_primitive 0 1 None example_store)) 1) = [7]
   \<and> chainDirty (snd (tee identity_primitive 0 1 None example_store)) 0
   \<and> chainDirty (snd (tee identity_primitive 0 1 None example_store)) 1"
  using tee_is_pipe_returning_producer [of identity_primitive 0 1 None example_store]
  by (simp add: pipe_result pipe_fanout pipe_listeners pipe_dirty example_simps)

subsection \<open>The convenience constructors\<close>





subsection \<open>Synchronous wrappers\<close>

lemma throughSync_function_on_chunk:
  "through_function (throughSync_function f) chunk enc cb s =
     (case f [Data chunk] s of
        (Inl ex, s1) \<Rightarrow> cb (CbError ex) s1
      | (Inr v, s1) \<Rightarrow>
          (case cb (CbResult v) s1 of
             (None, s2) \<Rightarrow> (None, s2)
           | (Some ex, s2) \<Rightarrow> cb (CbError ex) s2))"
  by (simp add: through_function_def throughSync_function_def arg_at_def call_value_def Let_def
        split: prod.splits sum.splits option.splits)

text \<open>
  Claim C7, as the code has it. The stage function that \<open>throughSync\<close> (and
  \<open>throughObjSync\<close>, \<open>throughDataSync\<close>) builds, and the one \<open>filterSync\<close> builds, call
  the caller's function \<open>f\<close> on the chunk. When \<open>f\<close> throws \<open>ex\<close>, the exception is
  caught and the callback is called once, as \<open>cb(ex)\<close>; that call is outside the
  \<open>try\<close> block, and the wrapper completes as the call does: it throws exactly when the
  callback throws. When \<open>f\<close> returns \<open>v\<close>, the callback is called as \<open>cb(null, v)\<close>;
  should that call throw, the thrown value is passed to the callback in a second
  call. With a callback that never throws, the wrapper never throws.
\<close>

theorem sync_wrappers_forward_exceptions:
  fixes f :: "('v, 'x, 's) syncfun"
    and p :: "'v \<Rightarrow> 's \<Rightarrow> ('x exn + 'v) \<times> 's"
    and cb :: "('v, 'x, 's) callback"
  shows
  "(f [Data chunk] s = (Inl ex, s1) \<longrightarrow>
      through_function (throughSync_function f) chunk enc cb s = cb (CbError ex) s1)
   \<and> (f [Data chunk] s = (Inr v, s1) \<and> cb (CbResult v) s1 = (None, s2) \<longrightarrow>
      through_function (throughSync_function f) chunk enc cb s = (None, s2))
   \<and> (f [Data chunk] s = (Inr v, s1) \<and> cb (CbResult v) s1 = (Some ex', s2) \<longrightarrow>
      through_function (throughSync_function f) chunk enc cb s = cb (CbError ex') s2)
   \<and> ((\<forall>a t. fst (cb a t) = None) \<longrightarrow>
      fst (through_function (throughSync_function f) chunk enc cb s) = None)
   \<and> (p chunk s = (Inl ex, s1) \<longrightarrow> filterSync_function p chunk cb s = cb (CbError ex) s1)
   \<and> (p chunk s = (Inr v, s1) \<and> cb (CbResult v) s1 = (None, s2) \<longrightarrow>
      filterSync_function p chunk cb s = (None, s2))
   \<and> (p chunk s = (Inr v, s1) \<and> cb (CbResult v) s1 = (Some ex', s2) \<longrightarrow>
      filterSync_function p chunk cb s = cb (CbError ex') s2)
   \<and> ((\<forall>a t. fst (cb a t) = None) \<longrightarrow> fst (filterSync_function p chunk cb s) = None)
   \<and> throughSync construct env this f om st =
        pipe_new construct env this
          (ThroughStream (through_function (throughSync_function f))
             (JBool (isReadableObjectMode this st))
             (if om \<noteq> JUndefined then om else JBool (isReadableObjectMode this st))) st
   \<and> throughObjSync construct env this f st =
        pipe_new construct env this
          (ThroughStream (through_function (throughSync_function f))
             (JBool (isReadableObjectMode this st)) (JBool True)) st
   \<and> throughDataSync construct env this f st =
        pipe_new construct env this
          (ThroughStream (through_function (throughSync_function f))
             (JBool (isReadableObjectMode this st)) (JBool False)) st
   \<and> filterSync construct env this p st =
        pipe_new construct env this (FilterStream (filterSync_function p) (JBool True)) st"
proof -
  have t4: "(\<forall>a t. fst (cb a t) = None) \<longrightarrow>
      fst (through_function (throughSync_function f) chunk enc cb s) = None"
    by (auto simp add: throughSync_function_on_chunk split: prod.splits sum.splits option.splits)
  have f4: "(\<forall>a t. fst (cb a t) = None) \<longrightarrow> fst (filterSync_function p chunk cb s) = None"
    by (auto simp add: filterSync_function_def split: prod.splits sum.splits option.splits)
  have c: "throughSync construct env this f om st =
        pipe_new construct env this
          (ThroughStream (through_function (throughSync_function f))
             (JBool (isReadableObjectMode this st))
             (if om \<noteq> JUndefined then om else JBool (isReadableObjectMode this st))) st
   \<and> throughObjSync construct env this f st =
        pipe_new construct env this
          (ThroughStream (through_function (throughSync_function f))
             (JBool (isReadableObjectMode this st)) (JBool True)) st
   \<and> throughDataSync construct env this f st =
        pipe_new construct env this
          (ThroughStream (through_function (throughSync_function f))
             (JBool (isReadableObjectMode this st)) (JBool False)) st
   \<and> filterSync construct env this p st =
        pipe_new construct env this (FilterStream (filterSync_function p) (JBool True)) st"
    by (simp add: throughSync_def throughObjSync_def throughDataSync_def through_def
          through_stage_def filterSync_def filter_mixin_def filter_stage_def)
  show ?thesis
    using t4 f4 c
    by (simp add: throughSync_function_on_chunk filterSync_function_def)
qed

theorem sync_wrappers_forward_exceptions_witness:
  "doubling_function [Data 2] [] = (Inl (Thrown ''boom''), [])
   \<and> through_function (throughSync_function doubling_function) 2 JUndefined recording_callback []
        = (None, [CbError (Thrown ''boom'')])
   \<and> doubling_function [Data 3] [] = (Inr 6, [])
   \<and> through_function (throughSync_function doubling_function) 3 JUndefined recording_callback []
        = (None, [CbResult 6])
   \<and> threshold_function 2 [] = (Inl (Thrown ''boom''), [])
   \<and> filterSync_function threshold_function 2 recording_callback []
        = (None, [CbError (Thrown ''boom'')])
   \<and> threshold_function 3 [] = (Inr 1, [])
   \<and> filterSync_function threshold_function 3 recording_callback [] = (None, [CbResult 1])"
proof -
  have d2: "doubling_function [Data 2] [] = (Inl (Thrown ''boom''), [])"
    by (simp add: doubling_function_def)
  have d3: "doubling_function [Data 3] [] = (Inr 6, [])"
    by (simp add: doubling_function_def)
  have t2: "threshold_function 2 [] = (Inl (Thrown ''boom''), [])"
    by (simp add: threshold_function_def)
  have t3: "threshold_function 3 [] = (Inr 1, [])"
    by (simp add: threshold_function_def)
  have r: "recording_callback (CbResult 6) [] = (None, [CbResult 6])"
     "recording_callback (CbResult 1) [] = (None, [CbResult 1])"
     "recording_callback (CbError (Thrown ''boom'')) [] = (None, [CbError (Thrown ''boom'')])"
    by (simp_all add: recording_callback_def)
  note a = sync_wrappers_forward_exceptions [where f = doubling_function and p = threshold_function
      and cb = recording_callback and chunk = 2 and s = "[]" and ex = "Thrown ''boom''" and ?s1.0 = "[]"
      and enc = JUndefined and construct = example_construct and env = identity_primitive]
  note b = sync_wrappers_forward_exceptions [where f = doubling_function and p = threshold_function
      and cb = recording_callback and chunk = 3 and s = "[]" and ?s1.0 = "[]"
      and enc = JUndefined and construct = example_construct and env = identity_primitive]
  have 1: "through_function (throughSync_function doubling_function) 2 JUndefined recording_callback []
        = (None, [CbError (Thrown ''boom'')])"
    using a d2 r by simp
  have 2: "filterSync_function threshold_function 2 recording_callback []
        = (None, [CbError (Thrown ''boom'')])"
    using a t2 r by simp
  have 3: "through_function (throughSync_function doubling_function) 3 JUndefined recording_callback []
        = (None, [CbResult 6])"
    using b [where v = 6 and ?s2.0 = "[CbResult 6]"] d3 r by simp
  have 4: "filterSync_function threshold_function 3 recording_callback [] = (None, [CbResult 1])"
    using b [where v = 1 and ?s2.0 = "[CbResult 1]"] t3 r by simp
  from d2 d3 t2 t3 1 2 3 4 show ?thesis by simp
qed

text \<open>
  The caller's function throws \<open>'boom'\<close> on the chunk 2, and the callback throws the
  error it is called with: the exception is caught, passed to the callback, and
  thrown out of both wrappers by that call.
\<close>

theorem sync_wrappers_rethrowing_callback_counterexample:
  "doubling_function [Data 2] [] = (Inl (Thrown ''boom''), [])
   \<and> rethrowing_callback (CbError (Thrown ''boom'')) [] =
        (Some (Thrown ''boom''), [CbError (Thrown ''boom'')])
   \<and> through_function (throughSync_function doubling_function) 2 JUndefined rethrowing_callback []
        = (Some (Thrown ''boom''), [CbError (Thrown ''boom'')])
   \<and> threshold_function 2 [] = (Inl (Thrown ''boom''), [])
   \<and> filterSync_function threshold_function 2 rethrowing_callback []
        = (Some (Thrown ''boom''), [CbError (Thrown ''boom'')])"
  by (simp add: throughSync_function_on_chunk filterSync_function_def doubling_function_def
        threshold_function_def rethrowing_callback_def)

subsection \<open>Argument defaults\<close>



lemma to_number_not_NaN: "to_number i \<noteq> JNaN"
  by (simp add: to_number_def Let_def)





























text \<open>
  Claim C9. \<open>intersperse(x)\<close> uses the newline string as separator when \<open>x\<close> is
  \<open>null\<close> or \<open>undefined\<close> (an omitted argument is \<open>undefined\<close>), and \<open>x\<close> itself in
  every other case, in particular for the empty string.
\<close>

theorem intersperse_separator_default:
  "(intersperse_stage this x s :: ('v, 'x, 's) stage) =
      IntersperseStream (if x = JNull \<or> x = JUndefined then JStr [0x0A] else x)
        (JBool (isReadableObjectMode this s))
   \<and> (intersperse_stage this JUndefined s :: ('v, 'x, 's) stage) =
      IntersperseStream (JStr [0x0A]) (JBool (isReadableObjectMode this s))
   \<and> (intersperse_stage this JNull s :: ('v, 'x, 's) stage) =
      IntersperseStream (JStr [0x0A]) (JBool (isReadableObjectMode this s))
   \<and> (intersperse_stage this (JStr []) s :: ('v, 'x, 's) stage) =
      IntersperseStream (JStr []) (JBool (isReadableObjectMode this s))
   \<and> (x \<noteq> JNull \<and> x \<noteq> JUndefined \<longrightarrow>
        (intersperse_stage this x s :: ('v, 'x, 's) stage) =
          IntersperseStream x (JBool (isReadableObjectMode this s)))
   \<and> intersperse construct env this x s =
       pipe_new construct env this (intersperse_stage this x s :: ('v, 'x, 's) stage) s"
  by (simp add: intersperse_stage_def intersperse_def)

theorem intersperse_separator_default_witness:
  "(intersperse_stage 0 JNumNaN example_store :: (int, string, (int, string) cb_args list) stage) =
      IntersperseStream JNumNaN (JBool False)
  \<and> (intersperse_stage 0 (JBool False) example_store :: (int, string, (int, string) cb_args list) stage) =
      IntersperseStream (JBool False) (JBool False)
  \<and> (intersperse_stage 0 (JStr []) example_store :: (int, string, (int, string) cb_args list) stage) =
      IntersperseStream (JStr []) (JBool False)
  \<and> (intersperse_stage 0 JNull example_store :: (int, string, (int, string) cb_args list) stage) =
      IntersperseStream (JStr [0x0A]) (JBool False)"
  using intersperse_separator_default [where x = JNumNaN and construct = example_construct
      and env = identity_primitive and this = 0 and s = example_store]
   intersperse_separator_default [where x = "JBool False" and construct = example_construct
      and env = identity_primitive and this = 0 and s = example_store]
  by (simp add: isReadableObjectMode_def example_store_def plain_node_def)

text \<open>
  Claim C10. \<open>pluck(p)\<close> plucks the key \<open>"value"\<close> for every falsy \<open>p\<close> (the empty
  string, 0, NaN, \<open>null\<close>, \<open>undefined\<close>, \<open>false\<close>), and \<open>p\<close> itself exactly when \<open>p\<close> is
  truthy.
\<close>

theorem pluck_property_default:
  "(pluck_stage p :: ('v, 'x, 's) stage) =
      PluckStream (if truthy p then p else JStr (js_string ''value''))
   \<and> (\<not> truthy p \<longrightarrow> (pluck_stage p :: ('v, 'x, 's) stage) = PluckStream (JStr (js_string ''value'')))
   \<and> (truthy p \<longrightarrow> (pluck_stage p :: ('v, 'x, 's) stage) = PluckStream p)
   \<and> (pluck_stage (JStr []) :: ('v, 'x, 's) stage) = PluckStream (JStr (js_string ''value''))
   \<and> (pluck_stage (JNumInt (Abs_safe_int 0)) :: ('v, 'x, 's) stage) =
        PluckStream (JStr (js_string ''value''))
   \<and> (pluck_stage JNull :: ('v, 'x, 's) stage) = PluckStream (JStr (js_string ''value''))
   \<and> (pluck_stage JUndefined :: ('v, 'x, 's) stage) = PluckStream (JStr (js_string ''value''))
   \<and> (pluck_stage (JBool False) :: ('v, 'x, 's) stage) = PluckStream (JStr (js_string ''value''))
   \<and> (pluck_stage JNumNaN :: ('v, 'x, 's) stage) = PluckStream (JStr (js_string ''value''))
   \<and> pluck construct env this p s = pipe_new construct env this (pluck_stage p :: ('v, 'x, 's) stage) s"
  by (simp add: pluck_stage_def pluck_def Abs_safe_int_inverse)

theorem pluck_property_default_witness:
  "\<not> truthy (JStr []) \<and> truthy (JStr (js_string ''id''))
   \<and> (pluck_stage (JStr []) :: (int, string, (int, string) cb_args list) stage) =
        PluckStream (JStr (js_string ''value''))
   \<and> (pluck_stage (JStr (js_string ''id'')) :: (int, string, (int, string) cb_args list) stage) =
        PluckStream (JStr (js_string ''id''))"
  using pluck_property_default [where p = "JStr []" and construct = example_construct
      and env = identity_primitive and this = 0 and s = example_store]
    pluck_property_default [where p = "JStr (js_string ''id'')" and construct = example_construct
      and env = identity_primitive and this = 0 and s = example_store]
  by (simp add: js_string_def)

end
